theory Spec2Isabelle
  imports Complex_Main
begin

section \<open>Numbers\<close>

text \<open>
  The controller computes with JavaScript numbers, IEEE binary64. A number is modelled as
  a real. The sums that build the metrics of an element are rounded to binary64 (to
  nearest, ties to even), since rounding there can make two different coordinates
  equal; a sum whose rounded value leaves the binary64 range, Infinity in the source, is
  not represented. The arithmetic on metrics that follows (differences, absolute values,
  products, the square root) is taken exactly: the difference of two binary64 numbers is
  zero, positive or negative exactly when the exact difference is, which is all that the
  tests of the source read from it, while the value of a distance can differ from the
  source's by rounding. The places where the source leaves the finite numbers are
  written out: a division whose divisor is zero, and the arctangent and the comparisons
  applied to its result.
\<close>

datatype jsnum = Num real | PosInf | NegInf | NaN

text \<open>
  \<^verbatim>\<open>a / b\<close> for finite \<open>a\<close> and \<open>b\<close>. Every divisor in the source is a result
  of \<^verbatim>\<open>Math.abs\<close>, so a zero divisor is \<open>+0\<close>.
\<close>

definition js_div :: "real \<Rightarrow> real \<Rightarrow> jsnum" where
  "js_div a b =
     (if b \<noteq> 0 then Num (a / b)
      else if 0 < a then PosInf
      else if a < 0 then NegInf
      else NaN)"

text \<open>\<^verbatim>\<open>Math.atan(q) * (180/Math.PI)\<close>\<close>

definition atanDegrees :: "jsnum \<Rightarrow> jsnum" where
  "atanDegrees q =
     (case q of
        Num r \<Rightarrow> Num (arctan r * (180 / pi))
      | PosInf \<Rightarrow> Num ((pi / 2) * (180 / pi))
      | NegInf \<Rightarrow> Num (- (pi / 2) * (180 / pi))
      | NaN \<Rightarrow> NaN)"

text \<open>\<^verbatim>\<open>q >= r\<close>, \<^verbatim>\<open>q <= r\<close> and \<^verbatim>\<open>q > r\<close>: every comparison with NaN is false.\<close>

definition js_ge :: "jsnum \<Rightarrow> real \<Rightarrow> bool" where
  "js_ge q r = (case q of Num a \<Rightarrow> r \<le> a | PosInf \<Rightarrow> True | NegInf \<Rightarrow> False | NaN \<Rightarrow> False)"

definition js_le :: "jsnum \<Rightarrow> real \<Rightarrow> bool" where
  "js_le q r = (case q of Num a \<Rightarrow> a \<le> r | PosInf \<Rightarrow> False | NegInf \<Rightarrow> True | NaN \<Rightarrow> False)"

definition js_gt :: "jsnum \<Rightarrow> real \<Rightarrow> bool" where
  "js_gt q r = (case q of Num a \<Rightarrow> r < a | PosInf \<Rightarrow> True | NegInf \<Rightarrow> False | NaN \<Rightarrow> False)"

text \<open>\<^verbatim>\<open>Math.min(a, b, c)\<close> on finite numbers.\<close>

definition min3 :: "real \<Rightarrow> real \<Rightarrow> real \<Rightarrow> real" where
  "min3 a b c = min (min a b) c"

text \<open>
  Rounding to binary64: the nearest multiple of the spacing \<open>2\<^sup>e\<^sup>-\<^sup>5\<^sup>2\<close> of the binade
  \<open>2\<^sup>e \<le> \<bar>x\<bar> < 2\<^sup>e\<^sup>+\<^sup>1\<close> of \<open>x\<close> (of \<open>2\<^sup>-\<^sup>1\<^sup>0\<^sup>7\<^sup>4\<close> below the normal range), a tie going to
  the even multiple.
\<close>

definition roundHalfEven :: "real \<Rightarrow> int" where
  "roundHalfEven r =
     (let f = \<lfloor>r\<rfloor> in
      if r - of_int f < 1 / 2 then f
      else if 1 / 2 < r - of_int f then f + 1
      else if even f then f else f + 1)"

definition binary64 :: "real \<Rightarrow> real" where
  "binary64 x =
     (if x = 0 then 0
      else let e = max \<lfloor>log 2 \<bar>x\<bar>\<rfloor> (- 1022);
               u = 2 powr (of_int e - 52)
           in of_int (roundHalfEven (x / u)) * u)"

section \<open>Elements and their metrics\<close>

text \<open>
  What the controller reads of a DOM element: the inline style's \<^verbatim>\<open>display\<close> and
  \<^verbatim>\<open>visibility\<close>, the \<^verbatim>\<open>tabindex\<close> attribute (\<open>None\<close> when
  \<^verbatim>\<open>getAttribute\<close> returns null, otherwise the number the comparison
  \<^verbatim>\<open>tabIndex > -1\<close> converts it to, \<open>NaN\<close> for text that is no number), and
  the rectangle of \<^verbatim>\<open>getBoundingClientRect()\<close>.
\<close>

record clientRect =
  rectLeft :: real
  rectTop :: real
  rectWidth :: real
  rectHeight :: real

record domElement =
  styleDisplay :: string
  styleVisibility :: string
  tabindexAttr :: "jsnum option"
  boundingClientRect :: clientRect

text \<open>
  The object built by \<^verbatim>\<open>getItemMetrics\<close>; \<open>centerX\<close> and \<open>centerY\<close> are
  \<^verbatim>\<open>center.x\<close> and \<^verbatim>\<open>center.y\<close>.
\<close>

record metrics =
  mWidth :: real
  mHeight :: real
  mLeft :: real
  mRight :: real
  mTop :: real
  mBottom :: real
  centerX :: real
  centerY :: real

definition getItemMetrics :: "domElement \<Rightarrow> metrics" where
  "getItemMetrics item =
     (let clientRect = boundingClientRect item in
      \<lparr> mWidth = rectWidth clientRect,
        mHeight = rectHeight clientRect,
        mLeft = rectLeft clientRect,
        mRight = binary64 (rectLeft clientRect + rectWidth clientRect),
        mTop = rectTop clientRect,
        mBottom = binary64 (rectTop clientRect + rectHeight clientRect),
        centerX = binary64 (rectLeft clientRect + binary64 (rectWidth clientRect / 2)),
        centerY = binary64 (rectTop clientRect + binary64 (rectHeight clientRect / 2)) \<rparr>)"

definition isFocusable :: "domElement \<Rightarrow> bool" where
  "isFocusable el =
     (if styleDisplay el = ''none'' \<or> styleVisibility el = ''hidden'' then False
      else let tabIndex = (case tabindexAttr el of None \<Rightarrow> Num (- 1) | Some t \<Rightarrow> t)
           in js_gt tabIndex (- 1))"

section \<open>Directional distances\<close>

text \<open>\<^verbatim>\<open>Math.floor(Math.sqrt((x * x) + (y * y)))\<close>\<close>

definition calcDistance :: "real \<Rightarrow> real \<Rightarrow> int" where
  "calcDistance x y = \<lfloor>sqrt ((x * x) + (y * y))\<rfloor>"

text \<open>
  The angle test that closes each of the four distance functions: with \<open>d\<close> the offset
  along the direction of the move and \<open>a\<close>, \<open>b\<close> the two absolute offsets across it,
  \<^verbatim>\<open>angleA = Math.atan(d / a) * (180/Math.PI)\<close>,
  \<^verbatim>\<open>angleB = Math.atan(d / b) * (180/Math.PI)\<close>, and the candidate is kept when
  \<^verbatim>\<open>angleA >= 0 && angleB <= 180\<close>.
\<close>

definition angleGate :: "real \<Rightarrow> real \<Rightarrow> real \<Rightarrow> bool" where
  "angleGate d a b =
     (let angleA = atanDegrees (js_div d a);
          angleB = atanDegrees (js_div d b)
      in js_ge angleA 0 \<and> js_le angleB 180)"

text \<open>
  The distance functions return a number or null, here \<open>int option\<close>. In each,
  the forward offset is null (\<open>None\<close>) unless the edge test passes; the offsets
  across the direction are never null.
\<close>

definition getTopDistance :: "metrics \<Rightarrow> metrics \<Rightarrow> int option" where
  "getTopDistance fromMetrics toMetrics =
     (let distanceY = (if mBottom toMetrics \<le> mTop fromMetrics
                       then Some (centerY fromMetrics - centerY toMetrics) else None);
          distanceLeft = \<bar>centerX fromMetrics - mLeft toMetrics\<bar>;
          distanceRight = \<bar>centerX fromMetrics - mRight toMetrics\<bar>;
          distanceX = min3 \<bar>centerX fromMetrics - mLeft toMetrics\<bar>
                           \<bar>centerX fromMetrics - centerX toMetrics\<bar>
                           \<bar>centerX fromMetrics - mRight toMetrics\<bar>
      in case distanceY of
           None \<Rightarrow> None
         | Some dy \<Rightarrow>
             if \<not> angleGate dy distanceLeft distanceRight then None
             else Some (calcDistance distanceX dy))"

definition getBottomDistance :: "metrics \<Rightarrow> metrics \<Rightarrow> int option" where
  "getBottomDistance fromMetrics toMetrics =
     (let distanceY = (if mBottom fromMetrics \<le> mTop toMetrics
                       then Some (centerY toMetrics - centerY fromMetrics) else None);
          distanceLeft = \<bar>centerX fromMetrics - mLeft toMetrics\<bar>;
          distanceRight = \<bar>centerX fromMetrics - mRight toMetrics\<bar>;
          distanceX = min3 \<bar>centerX fromMetrics - mLeft toMetrics\<bar>
                           \<bar>centerX fromMetrics - centerX toMetrics\<bar>
                           \<bar>centerX fromMetrics - mRight toMetrics\<bar>
      in case distanceY of
           None \<Rightarrow> None
         | Some dy \<Rightarrow>
             if \<not> angleGate dy distanceLeft distanceRight then None
             else Some (calcDistance distanceX dy))"

definition getLeftDistance :: "metrics \<Rightarrow> metrics \<Rightarrow> int option" where
  "getLeftDistance fromMetrics toMetrics =
     (let distanceX = (if mRight toMetrics \<le> mLeft fromMetrics
                       then Some (centerX fromMetrics - centerX toMetrics) else None);
          distanceTop = \<bar>centerY fromMetrics - mTop toMetrics\<bar>;
          distanceBottom = \<bar>centerY fromMetrics - mBottom toMetrics\<bar>;
          distanceY = min3 \<bar>centerY fromMetrics - mTop toMetrics\<bar>
                           \<bar>centerY fromMetrics - centerY toMetrics\<bar>
                           \<bar>centerY fromMetrics - mBottom toMetrics\<bar>
      in case distanceX of
           None \<Rightarrow> None
         | Some dx \<Rightarrow>
             if \<not> angleGate dx distanceTop distanceBottom then None
             else Some (calcDistance dx distanceY))"

definition getRightDistance :: "metrics \<Rightarrow> metrics \<Rightarrow> int option" where
  "getRightDistance fromMetrics toMetrics =
     (let distanceX = (if mRight fromMetrics \<le> mLeft toMetrics
                       then Some (centerX toMetrics - centerX fromMetrics) else None);
          distanceTop = \<bar>centerY fromMetrics - mTop toMetrics\<bar>;
          distanceBottom = \<bar>centerY fromMetrics - mBottom toMetrics\<bar>;
          distanceY = min3 \<bar>centerY fromMetrics - mTop toMetrics\<bar>
                           \<bar>centerY fromMetrics - centerY toMetrics\<bar>
                           \<bar>centerY fromMetrics - mBottom toMetrics\<bar> * 2
      in case distanceX of
           None \<Rightarrow> None
         | Some dx \<Rightarrow>
             if \<not> angleGate dx distanceTop distanceBottom then None
             else Some (calcDistance dx distanceY))"

section \<open>Focusable items and the controller\<close>

text \<open>
  Modelled from the spec: the class \<^verbatim>\<open>FocusableItem\<close> is not part of
  \<^verbatim>\<open>focus-controller.js\<close>, which only calls its accessors. An item holds its
  element (\<^verbatim>\<open>getElement()\<close>) and four optional neighbour indices, read by
  \<^verbatim>\<open>getTopFocusItemIndex()\<close> and written by \<^verbatim>\<open>setTopFocusItemIndex(i)\<close>
  (likewise bottom, left, right); \<open>None\<close> is null.
\<close>

record focusableItem =
  getElement :: domElement
  topFocusItemIndex :: "nat option"
  bottomFocusItemIndex :: "nat option"
  leftFocusItemIndex :: "nat option"
  rightFocusItemIndex :: "nat option"

text \<open>
  Items are objects compared by identity (\<^verbatim>\<open>===\<close>): an item is a reference
  \<open>Ref n\<close> into the store of item objects. A variable that holds an item can also hold
  \<^verbatim>\<open>null\<close> or \<^verbatim>\<open>undefined\<close>.
\<close>

datatype itemRef = Null | Undefined | Ref nat

datatype jsError = TypeError

datatype jsValue = JsUndefined | JsBool bool | JsNumber int

text \<open>
  The closure variables of \<^verbatim>\<open>FocusController\<close>, the store of the item objects the
  controller reaches, and the elements on which the controller has called
  \<^verbatim>\<open>focus()\<close>, oldest first (its only notification to the page).
\<close>

record focusController =
  debugMode :: bool
  focusableItems :: "nat list"
  moving :: bool
  currentlyFocusedItem :: itemRef
  itemStore :: "nat \<Rightarrow> focusableItem"
  focusCalls :: "nat list"

text \<open>
  A call returns, or throws with the state it has reached.
\<close>

datatype outcome = Done focusController | Thrown jsError focusController

fun stateOf :: "outcome \<Rightarrow> focusController" where
  "stateOf (Done s) = s"
| "stateOf (Thrown e s) = s"

text \<open>A controller as the constructor leaves it, over a given store of items.\<close>

definition newFocusController :: "(nat \<Rightarrow> focusableItem) \<Rightarrow> focusController" where
  "newFocusController store =
     \<lparr> debugMode = False, focusableItems = [], moving = False,
       currentlyFocusedItem = Null, itemStore = store, focusCalls = [] \<rparr>"

subsection \<open>Registration\<close>

primrec containsItem :: "nat list \<Rightarrow> nat \<Rightarrow> bool" where
  "containsItem [] item = False"
| "containsItem (x # xs) item = (if x = item then True else containsItem xs item)"

definition isFocusableItem :: "focusController \<Rightarrow> nat \<Rightarrow> bool" where
  "isFocusableItem s item = containsItem (focusableItems s) item"

text \<open>
  \<^verbatim>\<open>pushFocusableItem\<close> also registers a listener on the element that sets
  \<^verbatim>\<open>currentlyFocusedItem\<close> to the item when the page focuses the element; the listener
  runs on page events only, which are not part of a call.
\<close>

definition pushFocusableItem :: "focusController \<Rightarrow> nat \<Rightarrow> focusController \<times> jsValue" where
  "pushFocusableItem s item =
     (let s' = s\<lparr>focusableItems := focusableItems s @ [item]\<rparr>
      in (s', JsNumber (int (length (focusableItems s')) - 1)))"

text \<open>
  \<^verbatim>\<open>addFocusableItem\<close> has a bare \<^verbatim>\<open>return;\<close> on one path and no
  \<^verbatim>\<open>return\<close> on the other: its value is \<^verbatim>\<open>undefined\<close> on both.
\<close>

definition addFocusableItem :: "focusController \<Rightarrow> nat \<Rightarrow> focusController \<times> jsValue" where
  "addFocusableItem s item =
     (if isFocusableItem s item then (s, JsUndefined)
      else (fst (pushFocusableItem s item), JsUndefined))"

definition getFocusableItemCount :: "focusController \<Rightarrow> nat" where
  "getFocusableItemCount s = length (focusableItems s)"

text \<open>
  \<^verbatim>\<open>getFocusableItem(index)\<close> for an integer index: null at or past the end, the
  array's element in range, and \<^verbatim>\<open>undefined\<close> (what the array gives) below zero.
\<close>

definition getFocusableItem :: "focusController \<Rightarrow> int \<Rightarrow> itemRef" where
  "getFocusableItem s index =
     (if index \<ge> int (length (focusableItems s)) then Null
      else if index < 0 then Undefined
      else Ref (focusableItems s ! nat index))"

subsection \<open>Focus\<close>

text \<open>
  \<^verbatim>\<open>setCurrentFocusItem\<close> assigns before it tests: the variable takes whatever
  \<^verbatim>\<open>getFocusableItem\<close> gave. \<^verbatim>\<open>undefined !== null\<close> holds, so for
  \<^verbatim>\<open>undefined\<close> the call \<^verbatim>\<open>getElement()\<close> throws a TypeError.
\<close>

definition setCurrentFocusItem :: "focusController \<Rightarrow> int \<Rightarrow> outcome" where
  "setCurrentFocusItem s itemIndex =
     (let focusableItem = getFocusableItem s itemIndex;
          s' = s\<lparr>currentlyFocusedItem := focusableItem\<rparr>
      in case focusableItem of
           Null \<Rightarrow> Done s'
         | Undefined \<Rightarrow> Thrown TypeError s'
         | Ref item \<Rightarrow> Done (s'\<lparr>focusCalls := focusCalls s' @ [item]\<rparr>))"

record direction =
  dirX :: real
  dirY :: real

definition moveFocus :: "focusController \<Rightarrow> direction \<Rightarrow> outcome" where
  "moveFocus s direction =
     (case currentlyFocusedItem s of
        Null \<Rightarrow> Done s
      | Undefined \<Rightarrow> Done s
      | Ref item \<Rightarrow>
          (let nextItemIndex =
                 (if dirY direction = 0 then
                    (if dirX direction > 0 then rightFocusItemIndex (itemStore s item)
                     else leftFocusItemIndex (itemStore s item))
                  else if dirX direction = 0 then
                    (if dirY direction > 0 then topFocusItemIndex (itemStore s item)
                     else bottomFocusItemIndex (itemStore s item))
                  else None)
           in case nextItemIndex of
                None \<Rightarrow> Done s
              | Some i \<Rightarrow> setCurrentFocusItem s (int i)))"

subsection \<open>The graph build\<close>

definition setTopFocusItemIndex :: "focusController \<Rightarrow> nat \<Rightarrow> nat option \<Rightarrow> focusController" where
  "setTopFocusItemIndex s item idx =
     s\<lparr>itemStore := (itemStore s)(item := (itemStore s item)\<lparr>topFocusItemIndex := idx\<rparr>)\<rparr>"

definition setBottomFocusItemIndex :: "focusController \<Rightarrow> nat \<Rightarrow> nat option \<Rightarrow> focusController" where
  "setBottomFocusItemIndex s item idx =
     s\<lparr>itemStore := (itemStore s)(item := (itemStore s item)\<lparr>bottomFocusItemIndex := idx\<rparr>)\<rparr>"

definition setLeftFocusItemIndex :: "focusController \<Rightarrow> nat \<Rightarrow> nat option \<Rightarrow> focusController" where
  "setLeftFocusItemIndex s item idx =
     s\<lparr>itemStore := (itemStore s)(item := (itemStore s item)\<lparr>leftFocusItemIndex := idx\<rparr>)\<rparr>"

definition setRightFocusItemIndex :: "focusController \<Rightarrow> nat \<Rightarrow> nat option \<Rightarrow> focusController" where
  "setRightFocusItemIndex s item idx =
     s\<lparr>itemStore := (itemStore s)(item := (itemStore s item)\<lparr>rightFocusItemIndex := idx\<rparr>)\<rparr>"

text \<open>
  The four running minima of \<^verbatim>\<open>updateNodeEdges\<close>; \<open>None\<close> is a variable that is
  still \<^verbatim>\<open>undefined\<close>.
\<close>

record minima =
  minTopElementDist :: "int option"
  minBottomElementDist :: "int option"
  minLeftElementDist :: "int option"
  minRightElementDist :: "int option"

text \<open>
  \<^verbatim>\<open>distance !== null && (typeof minDist === 'undefined' || minDist > distance)\<close>
\<close>

definition improves :: "int option \<Rightarrow> int option \<Rightarrow> bool" where
  "improves distance minDist =
     (case distance of
        None \<Rightarrow> False
      | Some d \<Rightarrow> (case minDist of None \<Rightarrow> True | Some m \<Rightarrow> m > d))"

text \<open>
  One round of the loop of \<^verbatim>\<open>updateNodeEdges\<close>, for the index \<open>i\<close>, which the loop
  keeps below the item count.
\<close>

definition nodeEdgesStep ::
  "nat \<Rightarrow> metrics \<Rightarrow> nat \<Rightarrow> focusController \<times> minima \<Rightarrow> focusController \<times> minima" where
  "nodeEdgesStep currentItem currentItemMetrics i acc =
     (let newItem = focusableItems (fst acc) ! i in
      if \<not> isFocusable (getElement (itemStore (fst acc) newItem)) \<or> newItem = currentItem
      then acc
      else
        let newItemMetrics = getItemMetrics (getElement (itemStore (fst acc) newItem));
            distanceTop = getTopDistance currentItemMetrics newItemMetrics;
            distanceBottom = getBottomDistance currentItemMetrics newItemMetrics;
            distanceLeft = getLeftDistance currentItemMetrics newItemMetrics;
            distanceRight = getRightDistance currentItemMetrics newItemMetrics;
            acc1 = (if improves distanceTop (minTopElementDist (snd acc))
                    then (setTopFocusItemIndex (fst acc) currentItem (Some i),
                          (snd acc)\<lparr>minTopElementDist := distanceTop\<rparr>)
                    else acc);
            acc2 = (if improves distanceBottom (minBottomElementDist (snd acc1))
                    then (setBottomFocusItemIndex (fst acc1) currentItem (Some i),
                          (snd acc1)\<lparr>minBottomElementDist := distanceBottom\<rparr>)
                    else acc1);
            acc3 = (if improves distanceLeft (minLeftElementDist (snd acc2))
                    then (setLeftFocusItemIndex (fst acc2) currentItem (Some i),
                          (snd acc2)\<lparr>minLeftElementDist := distanceLeft\<rparr>)
                    else acc2);
            acc4 = (if improves distanceRight (minRightElementDist (snd acc3))
                    then (setRightFocusItemIndex (fst acc3) currentItem (Some i),
                          (snd acc3)\<lparr>minRightElementDist := distanceRight\<rparr>)
                    else acc3)
        in acc4)"

definition noMinima :: minima where
  "noMinima =
     \<lparr> minTopElementDist = None, minBottomElementDist = None,
       minLeftElementDist = None, minRightElementDist = None \<rparr>"

text \<open>
  \<^verbatim>\<open>updateNodeEdges(currentIndex)\<close>: with no item at the index,
  \<^verbatim>\<open>currentItem.getElement()\<close> throws. The writes to \<^verbatim>\<open>window.debug\<close> and the
  console are left out.
\<close>

definition updateNodeEdges :: "focusController \<Rightarrow> nat \<Rightarrow> outcome" where
  "updateNodeEdges s currentIndex =
     (case getFocusableItem s (int currentIndex) of
        Null \<Rightarrow> Thrown TypeError s
      | Undefined \<Rightarrow> Thrown TypeError s
      | Ref currentItem \<Rightarrow>
          (let currentItemMetrics = getItemMetrics (getElement (itemStore s currentItem));
               itemCount = getFocusableItemCount s
           in Done (fst (fold (nodeEdgesStep currentItem currentItemMetrics)
                           [0..<itemCount] (s, noMinima)))))"

text \<open>
  \<^verbatim>\<open>printDebugLinesForNode\<close> draws on the page, which is not modelled; what it can
  do to the controller is throw: for each neighbour index that is not null it calls
  \<^verbatim>\<open>this.getFocusableItem(index).getElement()\<close>, a TypeError when the index is past
  the end of the item array.
\<close>

definition neighbourDrawable :: "focusController \<Rightarrow> nat option \<Rightarrow> bool" where
  "neighbourDrawable s idx =
     (case idx of
        None \<Rightarrow> True
      | Some i \<Rightarrow> (case getFocusableItem s (int i) of Ref item \<Rightarrow> True | Null \<Rightarrow> False | Undefined \<Rightarrow> False))"

definition printDebugLinesForNode :: "focusController \<Rightarrow> nat \<Rightarrow> nat \<Rightarrow> outcome" where
  "printDebugLinesForNode s index focusableItem =
     (if neighbourDrawable s (topFocusItemIndex (itemStore s focusableItem))
         \<and> neighbourDrawable s (bottomFocusItemIndex (itemStore s focusableItem))
         \<and> neighbourDrawable s (leftFocusItemIndex (itemStore s focusableItem))
         \<and> neighbourDrawable s (rightFocusItemIndex (itemStore s focusableItem))
      then Done s
      else Thrown TypeError s)"

text \<open>
  The loop of \<^verbatim>\<open>updateFocusGraph\<close> over the indices still to visit, each below the
  item count.
\<close>

fun focusGraphLoop :: "nat list \<Rightarrow> focusController \<Rightarrow> outcome" where
  "focusGraphLoop [] s = Done s"
| "focusGraphLoop (i # rest) s =
     (let focusableItem = focusableItems s ! i in
      if \<not> isFocusable (getElement (itemStore s focusableItem)) then focusGraphLoop rest s
      else
        case updateNodeEdges s i of
          Thrown e s' \<Rightarrow> Thrown e s'
        | Done s' \<Rightarrow>
            if debugMode s' then
              (case printDebugLinesForNode s' i focusableItem of
                 Thrown e s'' \<Rightarrow> Thrown e s''
               | Done s'' \<Rightarrow> focusGraphLoop rest s'')
            else focusGraphLoop rest s')"

text \<open>
  \<^verbatim>\<open>updateFocusGraph\<close>; \<^verbatim>\<open>clearDebugLines\<close> touches the page only.
\<close>

definition updateFocusGraph :: "focusController \<Rightarrow> outcome" where
  "updateFocusGraph s = focusGraphLoop [0..<getFocusableItemCount s] s"

section \<open>A layout to run the controller on\<close>

text \<open>
  Three items with a tab index and no inline style: \<open>A\<close> at (0, 0), \<open>B\<close> at
  (150, 0) to its right and \<open>C\<close> at (150, 200) below \<open>B\<close>, each 100 by 100. They are
  the items 0, 1 and 2 of the store; every other item of the store has an empty
  rectangle at the origin. No neighbour index has been written yet.
\<close>

definition plainElement :: "real \<Rightarrow> real \<Rightarrow> real \<Rightarrow> real \<Rightarrow> domElement" where
  "plainElement l t w h =
     \<lparr> styleDisplay = [], styleVisibility = [], tabindexAttr = Some (Num 0),
       boundingClientRect = \<lparr> rectLeft = l, rectTop = t, rectWidth = w, rectHeight = h \<rparr> \<rparr>"

definition freshItem :: "domElement \<Rightarrow> focusableItem" where
  "freshItem el =
     \<lparr> getElement = el, topFocusItemIndex = None, bottomFocusItemIndex = None,
       leftFocusItemIndex = None, rightFocusItemIndex = None \<rparr>"

definition exampleStore :: "nat \<Rightarrow> focusableItem" where
  "exampleStore =
     (\<lambda>n. freshItem (plainElement 0 0 0 0))
       (0 := freshItem (plainElement 0 0 100 100),
        1 := freshItem (plainElement 150 0 100 100),
        2 := freshItem (plainElement 150 200 100 100))"

text \<open>The three items registered in order, and \<open>A\<close> focused by \<^verbatim>\<open>setCurrentFocusItem(0)\<close>.\<close>

definition exampleController :: focusController where
  "exampleController =
     \<lparr> debugMode = False, focusableItems = [0, 1, 2], moving = False,
       currentlyFocusedItem = Ref 0, itemStore = exampleStore, focusCalls = [0] \<rparr>"

definition moveRight :: direction where
  "moveRight = \<lparr> dirX = 1, dirY = 0 \<rparr>"

text \<open>
  A second layout, for ties: \<open>A\<close> as before, and two items to its right at the same
  distance, one a row lower (index 1) and one a row higher (index 2).
\<close>

definition tieStore :: "nat \<Rightarrow> focusableItem" where
  "tieStore =
     (\<lambda>n. freshItem (plainElement 0 0 0 0))
       (0 := freshItem (plainElement 0 0 100 100),
        1 := freshItem (plainElement 150 100 100 100),
        2 := freshItem (plainElement 150 (- 100) 100 100))"

definition tieController :: focusController where
  "tieController =
     \<lparr> debugMode = False, focusableItems = [0, 1, 2], moving = False,
       currentlyFocusedItem = Null, itemStore = tieStore, focusCalls = [] \<rparr>"

section \<open>Notions for stating what the build does\<close>

text \<open>
  The definitions of this section are not functions of the source; they name what the
  source computes so that the theorems can speak about it. \<open>side\<close> names the four
  neighbour fields of an item and the distance function that belongs to each.
\<close>

datatype side = TopSide | BottomSide | LeftSide | RightSide

definition pairDistance :: "side \<Rightarrow> metrics \<Rightarrow> metrics \<Rightarrow> int option" where
  "pairDistance d fromMetrics toMetrics =
     (case d of
        TopSide \<Rightarrow> getTopDistance fromMetrics toMetrics
      | BottomSide \<Rightarrow> getBottomDistance fromMetrics toMetrics
      | LeftSide \<Rightarrow> getLeftDistance fromMetrics toMetrics
      | RightSide \<Rightarrow> getRightDistance fromMetrics toMetrics)"

definition neighbourIndex :: "side \<Rightarrow> focusableItem \<Rightarrow> nat option" where
  "neighbourIndex d item =
     (case d of
        TopSide \<Rightarrow> topFocusItemIndex item
      | BottomSide \<Rightarrow> bottomFocusItemIndex item
      | LeftSide \<Rightarrow> leftFocusItemIndex item
      | RightSide \<Rightarrow> rightFocusItemIndex item)"

text \<open>
  What one round of the loop of \<^verbatim>\<open>updateNodeEdges\<close> for the item
  \<open>currentItem\<close> computes for the index \<open>i\<close> and one side: nothing (\<open>None\<close>) when the
  item at \<open>i\<close> is skipped (not focusable, or \<open>currentItem\<close> itself), else the distance
  function's result.
\<close>

definition candidateDistance :: "focusController \<Rightarrow> nat \<Rightarrow> side \<Rightarrow> nat \<Rightarrow> int option" where
  "candidateDistance s currentItem d i =
     (let newItem = focusableItems s ! i in
      if \<not> isFocusable (getElement (itemStore s newItem)) \<or> newItem = currentItem then None
      else pairDistance d (getItemMetrics (getElement (itemStore s currentItem)))
             (getItemMetrics (getElement (itemStore s newItem))))"

text \<open>
  The running minimum and the neighbour index of one side, through one round of the
  loop (\<open>keepBest\<close>) and through all rounds from undefined and null (\<open>chosen\<close>).
\<close>

definition keepBest :: "(nat \<Rightarrow> int option) \<Rightarrow> nat \<Rightarrow> int option \<times> nat option \<Rightarrow> int option \<times> nat option" where
  "keepBest D i p = (if improves (D i) (fst p) then (D i, Some i) else p)"

definition chosen :: "focusController \<Rightarrow> nat \<Rightarrow> side \<Rightarrow> nat option" where
  "chosen s currentItem d =
     snd (fold (keepBest (candidateDistance s currentItem d))
            [0..<length (focusableItems s)] (None, None))"

text \<open>
  An item after \<^verbatim>\<open>updateNodeEdges\<close> has run on it (\<open>settleItem\<close>): each
  field holds the index the loop chose, or its old value when the loop chose none. A
  controller in which that has happened to the items of a set (\<open>settleSet\<close>).
\<close>

definition override :: "nat option \<Rightarrow> nat option \<Rightarrow> nat option" where
  "override new old = (case new of None \<Rightarrow> old | Some j \<Rightarrow> Some j)"

definition settleItem :: "focusController \<Rightarrow> nat \<Rightarrow> focusableItem" where
  "settleItem s c =
     (itemStore s c)
       \<lparr> topFocusItemIndex := override (chosen s c TopSide) (topFocusItemIndex (itemStore s c)),
         bottomFocusItemIndex := override (chosen s c BottomSide) (bottomFocusItemIndex (itemStore s c)),
         leftFocusItemIndex := override (chosen s c LeftSide) (leftFocusItemIndex (itemStore s c)),
         rightFocusItemIndex := override (chosen s c RightSide) (rightFocusItemIndex (itemStore s c)) \<rparr>"

definition settleSet :: "nat set \<Rightarrow> focusController \<Rightarrow> focusController" where
  "settleSet X s = s\<lparr>itemStore := (\<lambda>x. if x \<in> X then settleItem s x else itemStore s x)\<rparr>"

text \<open>
  The rounds of \<^verbatim>\<open>updateFocusGraph\<close>, read off the state it starts from: whether the
  round for index \<open>i\<close> throws in \<^verbatim>\<open>printDebugLinesForNode\<close>, the items a run
  over a list of indices reaches, and whether the run throws.
\<close>

definition drawableItem :: "focusController \<Rightarrow> focusableItem \<Rightarrow> bool" where
  "drawableItem s item =
     (neighbourDrawable s (topFocusItemIndex item)
      \<and> neighbourDrawable s (bottomFocusItemIndex item)
      \<and> neighbourDrawable s (leftFocusItemIndex item)
      \<and> neighbourDrawable s (rightFocusItemIndex item))"

definition nodeThrows :: "focusController \<Rightarrow> nat \<Rightarrow> bool" where
  "nodeThrows s i = (debugMode s \<and> \<not> drawableItem s (settleItem s (focusableItems s ! i)))"

fun visited :: "nat list \<Rightarrow> focusController \<Rightarrow> nat set" where
  "visited [] s = {}"
| "visited (i # rest) s =
     (if \<not> isFocusable (getElement (itemStore s (focusableItems s ! i))) then visited rest s
      else if nodeThrows s i then {focusableItems s ! i}
      else insert (focusableItems s ! i) (visited rest s))"

fun throwsIn :: "nat list \<Rightarrow> focusController \<Rightarrow> bool" where
  "throwsIn [] s = False"
| "throwsIn (i # rest) s =
     (if \<not> isFocusable (getElement (itemStore s (focusableItems s ! i))) then throwsIn rest s
      else if nodeThrows s i then True
      else throwsIn rest s)"

text \<open>
  The invariant of the running minimum after the rounds for the indices below \<open>n\<close>:
  nothing found and no candidate so far, or the first index among those of least
  distance.
\<close>

definition bestSoFar :: "(nat \<Rightarrow> int option) \<Rightarrow> nat \<Rightarrow> int option \<times> nat option \<Rightarrow> bool" where
  "bestSoFar D n p =
     (case fst p of
        None \<Rightarrow> snd p = None \<and> (\<forall>k<n. D k = None)
      | Some d \<Rightarrow>
          (\<exists>j<n. snd p = Some j \<and> D j = Some d
             \<and> (\<forall>k<n. \<forall>e. D k = Some e \<longrightarrow> d \<le> e \<and> (k < j \<longrightarrow> d < e))))"

section \<open>The page changes, and the move as specified\<close>

text \<open>The page sets \<^verbatim>\<open>style.display = 'none'\<close> on the element of an item.\<close>

definition hideItem :: "focusController \<Rightarrow> nat \<Rightarrow> focusController" where
  "hideItem s item =
     s\<lparr>itemStore := (itemStore s)
         (item := (itemStore s item)
            \<lparr>getElement := (getElement (itemStore s item))\<lparr>styleDisplay := ''none''\<rparr>\<rparr>)\<rparr>"

text \<open>
  The move as the specification words it: with an item focused, rebuild the graph,
  then look the neighbour up.
\<close>

definition moveFocus_spec :: "focusController \<Rightarrow> direction \<Rightarrow> outcome" where
  "moveFocus_spec s direction =
     (case currentlyFocusedItem s of
        Null \<Rightarrow> Done s
      | Undefined \<Rightarrow> Done s
      | Ref item \<Rightarrow>
          (case updateFocusGraph s of
             Thrown e s' \<Rightarrow> Thrown e s'
           | Done s' \<Rightarrow> moveFocus s' direction))"

text \<open>The side a direction vector selects in \<^verbatim>\<open>moveFocus\<close>, if any.\<close>

definition sideOf :: "direction \<Rightarrow> side option" where
  "sideOf direction =
     (if dirY direction = 0 then (if dirX direction > 0 then Some RightSide else Some LeftSide)
      else if dirX direction = 0 then (if dirY direction > 0 then Some TopSide else Some BottomSide)
      else None)"

text \<open>
  The layout after a build, with \<open>A\<close> then hidden by the page.
\<close>

definition staleController :: focusController where
  "staleController = hideItem (stateOf (updateFocusGraph exampleController)) 0"






section \<open>Rounding\<close>

lemma roundHalfEven_of_int [simp]: "roundHalfEven (of_int n) = n"
  by (simp add: roundHalfEven_def)

lemma roundHalfEven_numeral [simp]: "roundHalfEven (numeral k) = numeral k"
  using roundHalfEven_of_int [of "numeral k"] by simp

lemma binary64_eqI:
  assumes "2 powr of_int e \<le> \<bar>x\<bar>" and "\<bar>x\<bar> < 2 powr (of_int e + 1)" and "- 1022 \<le> e"
  shows "binary64 x = of_int (roundHalfEven (x / 2 powr (of_int e - 52))) * 2 powr (of_int e - 52)"
proof -
  have pos: "0 < \<bar>x\<bar>"
    using assms(1) by (smt (verit) powr_gt_zero)
  then have "\<lfloor>log 2 \<bar>x\<bar>\<rfloor> = e"
    using assms(1,2) by (simp add: floor_log_eq_powr_iff)
  with pos assms(3) show ?thesis
    by (simp add: binary64_def Let_def max_def)
qed

lemma binary64_of_int:
  assumes "\<bar>m\<bar> < 2 ^ 53"
  shows "binary64 (of_int m) = of_int m"
proof (cases "m = 0")
  case True
  then show ?thesis by (simp add: binary64_def)
next
  case False
  define x :: real where "x = of_int m"
  define e where "e = \<lfloor>log 2 \<bar>x\<bar>\<rfloor>"
  have x1: "1 \<le> \<bar>x\<bar>"
    using False by (simp add: x_def)
  have xlt: "\<bar>x\<bar> < 2 ^ 53"
  proof -
    have "real_of_int \<bar>m\<bar> < real_of_int (2 ^ 53)"
      using assms by (simp only: of_int_less_iff)
    then show ?thesis by (simp add: x_def)
  qed
  have bounds: "2 powr of_int e \<le> \<bar>x\<bar>" "\<bar>x\<bar> < 2 powr (of_int e + 1)"
    using x1 floor_log_eq_powr_iff [of "\<bar>x\<bar>" 2 e] by (simp_all add: e_def)
  have e0: "0 \<le> e"
    using x1 by (simp add: e_def zero_le_log_cancel_iff)
  have e52: "e \<le> 52"
  proof (rule ccontr)
    assume "\<not> e \<le> 52"
    then have "(53::real) \<le> of_int e" by linarith
    from powr_mono [OF this, of 2] have "(2::real) ^ 53 \<le> 2 powr of_int e"
      by simp
    with bounds(1) xlt show False by linarith
  qed
  define k where "k = nat (52 - e)"
  have ek: "real_of_int e - 52 = - real k"
    using e52 by (simp add: k_def)
  have u: "(2::real) powr (of_int e - 52) = inverse (2 ^ k)"
    unfolding ek by (simp add: powr_minus powr_realpow)
  have q: "x / 2 powr (of_int e - 52) = of_int (m * 2 ^ k)"
    by (simp add: u x_def divide_inverse)
  have r: "roundHalfEven (x / 2 powr (of_int e - 52)) = m * 2 ^ k"
    unfolding q by (rule roundHalfEven_of_int)
  have "- 1022 \<le> e"
    using e0 by simp
  from binary64_eqI [OF bounds this]
  have "binary64 x = of_int (m * 2 ^ k) * 2 powr (of_int e - 52)"
    unfolding r .
  also have "\<dots> = x"
    by (simp add: u x_def field_simps)
  finally show ?thesis by (simp add: x_def)
qed

lemma binary64_numeral [simp]:
  "numeral k < (2::int) ^ 53 \<Longrightarrow> binary64 (numeral k) = numeral k"
  "numeral k < (2::int) ^ 53 \<Longrightarrow> binary64 (- numeral k) = - numeral k"
  using binary64_of_int [of "numeral k"] binary64_of_int [of "- numeral k"] by simp_all

lemma binary64_0 [simp]: "binary64 0 = 0"
  by (simp add: binary64_def)

lemma binary64_1 [simp]: "binary64 1 = 1"
  using binary64_of_int [of 1] by simp



section \<open>The angle test\<close>

lemma atanDegrees_ge_0:
  assumes "0 \<le> a"
  shows "js_ge (atanDegrees (js_div d a)) 0 \<longleftrightarrow> 0 < d \<or> (d = 0 \<and> 0 < a)"
proof (cases "a = 0")
  case True
  then show ?thesis
    by (simp add: js_div_def atanDegrees_def js_ge_def)
next
  case False
  with assms have pos: "0 < a" by simp
  have "(0::real) < 180 / pi" by simp
  then have "0 \<le> arctan (d / a) * (180 / pi) \<longleftrightarrow> 0 \<le> arctan (d / a)"
    by (metis zero_le_mult_iff less_le not_less)
  also have "\<dots> \<longleftrightarrow> 0 \<le> d / a"
    by (simp only: zero_le_arctan_iff)
  also have "\<dots> \<longleftrightarrow> 0 \<le> d"
    using pos by (simp add: zero_le_divide_iff)
  finally show ?thesis
    using pos by (auto simp: js_div_def atanDegrees_def js_ge_def)
qed

lemma arctan_degrees_le_180: "arctan r * (180 / pi) \<le> 180"
proof -
  have "arctan r \<le> pi"
    using arctan_ubound [of r] pi_gt_zero by linarith
  then have "arctan r * (180 / pi) \<le> pi * (180 / pi)"
    by (intro mult_right_mono) simp_all
  then show ?thesis by simp
qed

lemma atanDegrees_le_180:
  assumes "0 \<le> b"
  shows "js_le (atanDegrees (js_div d b)) 180 \<longleftrightarrow> d \<noteq> 0 \<or> 0 < b"
  using assms arctan_degrees_le_180
  by (auto simp: js_div_def atanDegrees_def js_le_def)

lemma angleGate_iff:
  assumes "0 \<le> a" and "0 \<le> b"
  shows "angleGate d a b \<longleftrightarrow> 0 < d \<or> (d = 0 \<and> 0 < a \<and> 0 < b)"
  using assms by (auto simp: angleGate_def Let_def atanDegrees_ge_0 atanDegrees_le_180)

lemma angleGate_abs [simp]:
  "angleGate d \<bar>a\<bar> \<bar>b\<bar> \<longleftrightarrow> 0 < d \<or> (d = 0 \<and> a \<noteq> 0 \<and> b \<noteq> 0)"
  by (simp add: angleGate_iff)


section \<open>Registration and focus\<close>

lemma containsItem_iff: "containsItem xs item \<longleftrightarrow> item \<in> set xs"
  by (induction xs) auto

lemma exampleController_reached:
  "exampleController =
     stateOf (setCurrentFocusItem
       (fst (addFocusableItem (fst (addFocusableItem (fst (addFocusableItem
          (newFocusController exampleStore) 0)) 1)) 2)) 0)"
  by (simp add: exampleController_def newFocusController_def addFocusableItem_def
      isFocusableItem_def pushFocusableItem_def setCurrentFocusItem_def getFocusableItem_def
      Let_def)

text \<open>
  C9. With no item focused (\<^verbatim>\<open>currentlyFocusedItem\<close> is null or undefined),
  \<^verbatim>\<open>moveFocus\<close> returns for every direction without throwing and leaves the whole
  state, the record of \<^verbatim>\<open>focus()\<close> calls included, as it was. A controller with no
  registered item is such a state.
\<close>

theorem moveFocus_unfocused:
  assumes "currentlyFocusedItem s = Null \<or> currentlyFocusedItem s = Undefined"
  shows "moveFocus s direction = Done s"
  using assms by (auto simp: moveFocus_def)

theorem moveFocus_unfocused_witness:
  "focusableItems (newFocusController exampleStore) = []
   \<and> moveFocus (newFocusController exampleStore) moveRight
       = Done (newFocusController exampleStore)"
  using moveFocus_unfocused [of "newFocusController exampleStore" moveRight]
  by (simp add: newFocusController_def)

text \<open>
  C2, as the claim states it, fails: with \<open>A\<close> focused, \<^verbatim>\<open>setCurrentFocusItem(3)\<close>
  on three items does not leave \<open>A\<close> focused.
\<close>

theorem setCurrentFocusItem_changes_focus:
  "currentlyFocusedItem (stateOf (setCurrentFocusItem exampleController 3))
     \<noteq> currentlyFocusedItem exampleController"
  by (simp add: setCurrentFocusItem_def getFocusableItem_def exampleController_def)

text \<open>
  C2, amended. For an index at or past the item count, \<^verbatim>\<open>setCurrentFocusItem\<close>
  returns with the focus cleared (\<^verbatim>\<open>currentlyFocusedItem\<close> null) and everything else,
  the record of \<^verbatim>\<open>focus()\<close> calls included, unchanged: no notification is sent.
\<close>

theorem setCurrentFocusItem_past_end:
  assumes "int (length (focusableItems s)) \<le> index"
  shows "setCurrentFocusItem s index = Done (s\<lparr>currentlyFocusedItem := Null\<rparr>)"
  using assms by (simp add: setCurrentFocusItem_def getFocusableItem_def)

theorem setCurrentFocusItem_past_end_witness:
  "setCurrentFocusItem exampleController 3
     = Done (exampleController\<lparr>currentlyFocusedItem := Null\<rparr>)"
  using setCurrentFocusItem_past_end [of exampleController 3]
  by (simp add: exampleController_def)

text \<open>
  C3, as the claim states it, fails: registering an item that is not yet present does
  not return true.
\<close>

theorem addFocusableItem_not_true:
  "\<not> isFocusableItem (newFocusController exampleStore) 0
   \<and> snd (addFocusableItem (newFocusController exampleStore) 0) \<noteq> JsBool True"
  by (simp add: addFocusableItem_def isFocusableItem_def newFocusController_def)

text \<open>
  C3, amended. \<^verbatim>\<open>addFocusableItem\<close> with an item that is already registered (the same
  object) leaves the controller, and so the item count, unchanged; with an item not yet
  present it appends the item, and the count grows by one. In both cases the call
  returns \<^verbatim>\<open>undefined\<close>.
\<close>

theorem addFocusableItem_effect:
  "isFocusableItem s item = (item \<in> set (focusableItems s))
   \<and> fst (addFocusableItem s item)
       = (if isFocusableItem s item then s
          else s\<lparr>focusableItems := focusableItems s @ [item]\<rparr>)
   \<and> getFocusableItemCount (fst (addFocusableItem s item))
       = (if isFocusableItem s item then getFocusableItemCount s
          else getFocusableItemCount s + 1)
   \<and> snd (addFocusableItem s item) = JsUndefined"
  by (simp add: addFocusableItem_def pushFocusableItem_def getFocusableItemCount_def
      isFocusableItem_def containsItem_iff Let_def)

theorem addFocusableItem_effect_witness:
  "fst (addFocusableItem exampleController 1) = exampleController
   \<and> getFocusableItemCount (fst (addFocusableItem exampleController 7)) = 4
   \<and> snd (addFocusableItem exampleController 1) = JsUndefined
   \<and> snd (addFocusableItem exampleController 7) = JsUndefined"
  using addFocusableItem_effect [of exampleController 1]
    addFocusableItem_effect [of exampleController 7]
  by (simp add: exampleController_def getFocusableItemCount_def)

section \<open>The distance functions\<close>

lemma floor_sqrt_eqI:
  assumes "0 \<le> n" and "of_int n * of_int n \<le> r" and "r < (of_int n + 1) * (of_int n + 1)"
  shows "\<lfloor>sqrt r\<rfloor> = n"
proof -
  have nn: "(0::real) \<le> of_int n" using assms(1) by simp
  have "sqrt (of_int n * of_int n) \<le> sqrt r"
    using assms(2) by (simp only: real_sqrt_le_iff)
  then have lo: "of_int n \<le> sqrt r"
    using nn by simp
  have "sqrt r < sqrt ((of_int n + 1) * (of_int n + 1))"
    using assms(3) by (simp only: real_sqrt_less_iff)
  then have hi: "sqrt r < of_int n + 1"
    using nn by simp
  show ?thesis
    using lo hi by (simp add: floor_unique)
qed

lemma calcDistance_power2: "calcDistance x y = \<lfloor>sqrt (x\<^sup>2 + y\<^sup>2)\<rfloor>"
  by (simp add: calcDistance_def power2_eq_square)

lemma edge_tests:
  "getRightDistance A B \<noteq> None \<Longrightarrow> mRight A \<le> mLeft B"
  "getLeftDistance A B \<noteq> None \<Longrightarrow> mRight B \<le> mLeft A"
  "getBottomDistance A B \<noteq> None \<Longrightarrow> mBottom A \<le> mTop B"
  "getTopDistance A B \<noteq> None \<Longrightarrow> mBottom B \<le> mTop A"
  by (auto simp: getRightDistance_def getLeftDistance_def getBottomDistance_def
      getTopDistance_def Let_def split: if_splits)

text \<open>
  C6, as the claim states it, fails: two focusable elements with the empty rectangle at
  the origin pass the edge test for a move right (0 \<le> 0), the forward offset and both
  offsets across are 0, so both angles are \<^verbatim>\<open>Math.atan(0 / 0)\<close>, NaN, the angle test
  rejects the pair and the distance is null, not \<open>\<lfloor>sqrt 0\<rfloor>\<close>.
\<close>

theorem degenerate_pair_rejected:
  "isFocusable (plainElement 0 0 0 0)
   \<and> mRight (getItemMetrics (plainElement 0 0 0 0)) \<le> mLeft (getItemMetrics (plainElement 0 0 0 0))
   \<and> getRightDistance (getItemMetrics (plainElement 0 0 0 0)) (getItemMetrics (plainElement 0 0 0 0)) = None"
  by (simp add: isFocusable_def js_gt_def plainElement_def getItemMetrics_def
      getRightDistance_def Let_def angleGate_iff)

text \<open>
  C6, amended. For every pair \<open>(A, B)\<close> that passes the edge test for a move right and
  the angle test, the distance to the right is \<open>\<lfloor>sqrt (dx\<^sup>2 + dy\<^sup>2)\<rfloor>\<close> with
  \<open>dx = B.center.x - A.center.x\<close> and \<open>dy\<close> twice the least of the three vertical offsets
  from \<open>A\<close>'s centre to \<open>B\<close>'s top, centre and bottom. The distance to the left is
  the same with \<open>dx = A.center.x - B.center.x\<close> and the vertical term taken once; the
  distances down and up take the least horizontal offset once as well, so the factor 2
  is applied for moves right only.
\<close>

theorem distance_formula:
  "(mRight A \<le> mLeft B
      \<and> angleGate (centerX B - centerX A) \<bar>centerY A - mTop B\<bar> \<bar>centerY A - mBottom B\<bar>
    \<longrightarrow> getRightDistance A B
          = Some \<lfloor>sqrt ((centerX B - centerX A)\<^sup>2
              + (2 * min3 \<bar>centerY A - mTop B\<bar> \<bar>centerY A - centerY B\<bar> \<bar>centerY A - mBottom B\<bar>)\<^sup>2)\<rfloor>)
   \<and> (mRight B \<le> mLeft A
      \<and> angleGate (centerX A - centerX B) \<bar>centerY A - mTop B\<bar> \<bar>centerY A - mBottom B\<bar>
    \<longrightarrow> getLeftDistance A B
          = Some \<lfloor>sqrt ((centerX A - centerX B)\<^sup>2
              + (min3 \<bar>centerY A - mTop B\<bar> \<bar>centerY A - centerY B\<bar> \<bar>centerY A - mBottom B\<bar>)\<^sup>2)\<rfloor>)
   \<and> (mBottom A \<le> mTop B
      \<and> angleGate (centerY B - centerY A) \<bar>centerX A - mLeft B\<bar> \<bar>centerX A - mRight B\<bar>
    \<longrightarrow> getBottomDistance A B
          = Some \<lfloor>sqrt ((min3 \<bar>centerX A - mLeft B\<bar> \<bar>centerX A - centerX B\<bar> \<bar>centerX A - mRight B\<bar>)\<^sup>2
              + (centerY B - centerY A)\<^sup>2)\<rfloor>)
   \<and> (mBottom B \<le> mTop A
      \<and> angleGate (centerY A - centerY B) \<bar>centerX A - mLeft B\<bar> \<bar>centerX A - mRight B\<bar>
    \<longrightarrow> getTopDistance A B
          = Some \<lfloor>sqrt ((min3 \<bar>centerX A - mLeft B\<bar> \<bar>centerX A - centerX B\<bar> \<bar>centerX A - mRight B\<bar>)\<^sup>2
              + (centerY A - centerY B)\<^sup>2)\<rfloor>)"
  by (simp add: getRightDistance_def getLeftDistance_def getBottomDistance_def
      getTopDistance_def Let_def calcDistance_power2 mult.commute del: angleGate_abs)

theorem distance_formula_witness:
  "getRightDistance (getItemMetrics (plainElement 0 0 100 100))
       (getItemMetrics (plainElement 150 200 100 100)) = Some 335
   \<and> getLeftDistance (getItemMetrics (plainElement 150 200 100 100))
       (getItemMetrics (plainElement 0 0 100 100)) = Some 212"
proof -
  have a: "\<lfloor>sqrt (112500::real)\<rfloor> = 335"
    by (rule floor_sqrt_eqI) simp_all
  have b: "\<lfloor>sqrt (45000::real)\<rfloor> = 212"
    by (rule floor_sqrt_eqI) simp_all
  show ?thesis
    using distance_formula [of "getItemMetrics (plainElement 0 0 100 100)"
        "getItemMetrics (plainElement 150 200 100 100)"]
      distance_formula [of "getItemMetrics (plainElement 150 200 100 100)"
        "getItemMetrics (plainElement 0 0 100 100)"]
    by (simp add: getItemMetrics_def plainElement_def min3_def angleGate_iff a b)
qed





section \<open>One run of updateNodeEdges\<close>

lemma nodeEdgesStep_eq:
  assumes "cm = getItemMetrics (getElement (itemStore s c))"
  shows "nodeEdgesStep c cm i (s, m) =
    (s\<lparr>itemStore := (itemStore s)(c := (itemStore s c)
        \<lparr> topFocusItemIndex := snd (keepBest (candidateDistance s c TopSide) i (minTopElementDist m, topFocusItemIndex (itemStore s c))),
          bottomFocusItemIndex := snd (keepBest (candidateDistance s c BottomSide) i (minBottomElementDist m, bottomFocusItemIndex (itemStore s c))),
          leftFocusItemIndex := snd (keepBest (candidateDistance s c LeftSide) i (minLeftElementDist m, leftFocusItemIndex (itemStore s c))),
          rightFocusItemIndex := snd (keepBest (candidateDistance s c RightSide) i (minRightElementDist m, rightFocusItemIndex (itemStore s c))) \<rparr>)\<rparr>,
     \<lparr> minTopElementDist = fst (keepBest (candidateDistance s c TopSide) i (minTopElementDist m, topFocusItemIndex (itemStore s c))),
       minBottomElementDist = fst (keepBest (candidateDistance s c BottomSide) i (minBottomElementDist m, bottomFocusItemIndex (itemStore s c))),
       minLeftElementDist = fst (keepBest (candidateDistance s c LeftSide) i (minLeftElementDist m, leftFocusItemIndex (itemStore s c))),
       minRightElementDist = fst (keepBest (candidateDistance s c RightSide) i (minRightElementDist m, rightFocusItemIndex (itemStore s c))) \<rparr>)"
proof (cases "\<not> isFocusable (getElement (itemStore s (focusableItems s ! i))) \<or> focusableItems s ! i = c")
  case True
  then have D: "\<And>d. candidateDistance s c d i = None"
    by (auto simp: candidateDistance_def)
  have "nodeEdgesStep c cm i (s, m) = (s, m)"
    using True by (auto simp: nodeEdgesStep_def)
  then show ?thesis
    by (simp add: D keepBest_def improves_def)
next
  case False
  then have D: "\<And>d. candidateDistance s c d i = pairDistance d cm (getItemMetrics (getElement (itemStore s (focusableItems s ! i))))"
    using assms by (auto simp: candidateDistance_def)
  show ?thesis
    using False
    by (simp add: nodeEdgesStep_def D keepBest_def pairDistance_def Let_def
        setTopFocusItemIndex_def setBottomFocusItemIndex_def setLeftFocusItemIndex_def setRightFocusItemIndex_def)
qed

lemma candidateDistance_cong:
  assumes "focusableItems t = focusableItems s"
    and "\<And>x. getElement (itemStore t x) = getElement (itemStore s x)"
  shows "candidateDistance t c d i = candidateDistance s c d i"
  by (simp add: candidateDistance_def assms Let_def cong: if_cong)

lemma keepBest_snd_Some:
  "snd p \<noteq> None \<Longrightarrow> snd (fold (keepBest D) is p) \<noteq> None"
  by (induction "is" arbitrary: p) (auto simp: keepBest_def)

lemma fold_keepBest_override:
  "fold (keepBest D) is (m, f) =
     (fst (fold (keepBest D) is (m, None)), override (snd (fold (keepBest D) is (m, None))) f)"
proof (induction "is" arbitrary: m f)
  case Nil
  show ?case by (simp add: override_def)
next
  case (Cons i "is")
  show ?case
  proof (cases "improves (D i) m")
    case True
    have "snd (fold (keepBest D) is (D i, Some i)) \<noteq> None"
      by (rule keepBest_snd_Some) simp
    then have "override (snd (fold (keepBest D) is (D i, Some i))) f
        = snd (fold (keepBest D) is (D i, Some i))"
      by (auto simp: override_def)
    moreover have "keepBest D i (m, f) = (D i, Some i)" "keepBest D i (m, None) = (D i, Some i)"
      using True by (simp_all add: keepBest_def)
    ultimately show ?thesis by simp
  next
    case False
    then have "keepBest D i (m, f) = (m, f)" "keepBest D i (m, None) = (m, None)"
      by (simp_all add: keepBest_def)
    then show ?thesis
      using Cons.IH [of m f] by simp
  qed
qed

lemma fold_nodeEdgesStep:
  assumes "cm = getItemMetrics (getElement (itemStore s c))"
  shows "fold (nodeEdgesStep c cm) is (s, m) =
    (s\<lparr>itemStore := (itemStore s)(c := (itemStore s c)
        \<lparr> topFocusItemIndex := snd (fold (keepBest (candidateDistance s c TopSide)) is (minTopElementDist m, topFocusItemIndex (itemStore s c))),
          bottomFocusItemIndex := snd (fold (keepBest (candidateDistance s c BottomSide)) is (minBottomElementDist m, bottomFocusItemIndex (itemStore s c))),
          leftFocusItemIndex := snd (fold (keepBest (candidateDistance s c LeftSide)) is (minLeftElementDist m, leftFocusItemIndex (itemStore s c))),
          rightFocusItemIndex := snd (fold (keepBest (candidateDistance s c RightSide)) is (minRightElementDist m, rightFocusItemIndex (itemStore s c))) \<rparr>)\<rparr>,
     \<lparr> minTopElementDist = fst (fold (keepBest (candidateDistance s c TopSide)) is (minTopElementDist m, topFocusItemIndex (itemStore s c))),
       minBottomElementDist = fst (fold (keepBest (candidateDistance s c BottomSide)) is (minBottomElementDist m, bottomFocusItemIndex (itemStore s c))),
       minLeftElementDist = fst (fold (keepBest (candidateDistance s c LeftSide)) is (minLeftElementDist m, leftFocusItemIndex (itemStore s c))),
       minRightElementDist = fst (fold (keepBest (candidateDistance s c RightSide)) is (minRightElementDist m, rightFocusItemIndex (itemStore s c))) \<rparr>)"
  using assms
proof (induction "is" arbitrary: s m)
  case Nil
  show ?case by simp
next
  case (Cons i "is")
  define it where "it = (itemStore s c)
        \<lparr> topFocusItemIndex := snd (keepBest (candidateDistance s c TopSide) i (minTopElementDist m, topFocusItemIndex (itemStore s c))),
          bottomFocusItemIndex := snd (keepBest (candidateDistance s c BottomSide) i (minBottomElementDist m, bottomFocusItemIndex (itemStore s c))),
          leftFocusItemIndex := snd (keepBest (candidateDistance s c LeftSide) i (minLeftElementDist m, leftFocusItemIndex (itemStore s c))),
          rightFocusItemIndex := snd (keepBest (candidateDistance s c RightSide) i (minRightElementDist m, rightFocusItemIndex (itemStore s c))) \<rparr>"
  define s1 where "s1 = s\<lparr>itemStore := (itemStore s)(c := it)\<rparr>"
  define m1 where "m1 = \<lparr> minTopElementDist = fst (keepBest (candidateDistance s c TopSide) i (minTopElementDist m, topFocusItemIndex (itemStore s c))),
       minBottomElementDist = fst (keepBest (candidateDistance s c BottomSide) i (minBottomElementDist m, bottomFocusItemIndex (itemStore s c))),
       minLeftElementDist = fst (keepBest (candidateDistance s c LeftSide) i (minLeftElementDist m, leftFocusItemIndex (itemStore s c))),
       minRightElementDist = fst (keepBest (candidateDistance s c RightSide) i (minRightElementDist m, rightFocusItemIndex (itemStore s c))) \<rparr>"
  have step: "nodeEdgesStep c cm i (s, m) = (s1, m1)"
    unfolding s1_def m1_def it_def by (rule nodeEdgesStep_eq) (rule Cons.prems)
  have el: "getElement it = getElement (itemStore s c)"
    by (simp add: it_def)
  have cm1: "cm = getItemMetrics (getElement (itemStore s1 c))"
    using Cons.prems by (simp add: s1_def el)
  have D: "\<And>d k. candidateDistance s1 c d k = candidateDistance s c d k"
    by (rule candidateDistance_cong) (simp_all add: s1_def el)
  have st: "s1\<lparr>itemStore := (itemStore s1)(c := Z)\<rparr> = s\<lparr>itemStore := (itemStore s)(c := Z)\<rparr>" for Z
    by (simp add: s1_def)
  have sel: "itemStore s1 c = it"
    by (simp add: s1_def)
  have it_upd: "it\<lparr>topFocusItemIndex := a, bottomFocusItemIndex := b,
        leftFocusItemIndex := e, rightFocusItemIndex := f\<rparr>
      = (itemStore s c)\<lparr>topFocusItemIndex := a, bottomFocusItemIndex := b,
        leftFocusItemIndex := e, rightFocusItemIndex := f\<rparr>" for a b e f
    by (simp add: it_def)
  have p: "(minTopElementDist m1, topFocusItemIndex it)
        = keepBest (candidateDistance s c TopSide) i (minTopElementDist m, topFocusItemIndex (itemStore s c))"
      "(minBottomElementDist m1, bottomFocusItemIndex it)
        = keepBest (candidateDistance s c BottomSide) i (minBottomElementDist m, bottomFocusItemIndex (itemStore s c))"
      "(minLeftElementDist m1, leftFocusItemIndex it)
        = keepBest (candidateDistance s c LeftSide) i (minLeftElementDist m, leftFocusItemIndex (itemStore s c))"
      "(minRightElementDist m1, rightFocusItemIndex it)
        = keepBest (candidateDistance s c RightSide) i (minRightElementDist m, rightFocusItemIndex (itemStore s c))"
    by (simp_all add: m1_def it_def)
  have "fold (nodeEdgesStep c cm) (i # is) (s, m) = fold (nodeEdgesStep c cm) is (s1, m1)"
    by (simp add: step)
  also note Cons.IH [OF cm1, of m1]
  finally have eq: "fold (nodeEdgesStep c cm) (i # is) (s, m) =
    (s\<lparr>itemStore := (itemStore s)(c := (itemStore s c)
        \<lparr> topFocusItemIndex := snd (fold (keepBest (candidateDistance s c TopSide)) is (keepBest (candidateDistance s c TopSide) i (minTopElementDist m, topFocusItemIndex (itemStore s c)))),
          bottomFocusItemIndex := snd (fold (keepBest (candidateDistance s c BottomSide)) is (keepBest (candidateDistance s c BottomSide) i (minBottomElementDist m, bottomFocusItemIndex (itemStore s c)))),
          leftFocusItemIndex := snd (fold (keepBest (candidateDistance s c LeftSide)) is (keepBest (candidateDistance s c LeftSide) i (minLeftElementDist m, leftFocusItemIndex (itemStore s c)))),
          rightFocusItemIndex := snd (fold (keepBest (candidateDistance s c RightSide)) is (keepBest (candidateDistance s c RightSide) i (minRightElementDist m, rightFocusItemIndex (itemStore s c)))) \<rparr>)\<rparr>,
     \<lparr> minTopElementDist = fst (fold (keepBest (candidateDistance s c TopSide)) is (keepBest (candidateDistance s c TopSide) i (minTopElementDist m, topFocusItemIndex (itemStore s c)))),
       minBottomElementDist = fst (fold (keepBest (candidateDistance s c BottomSide)) is (keepBest (candidateDistance s c BottomSide) i (minBottomElementDist m, bottomFocusItemIndex (itemStore s c)))),
       minLeftElementDist = fst (fold (keepBest (candidateDistance s c LeftSide)) is (keepBest (candidateDistance s c LeftSide) i (minLeftElementDist m, leftFocusItemIndex (itemStore s c)))),
       minRightElementDist = fst (fold (keepBest (candidateDistance s c RightSide)) is (keepBest (candidateDistance s c RightSide) i (minRightElementDist m, rightFocusItemIndex (itemStore s c)))) \<rparr>)"
    unfolding D sel st it_upd p .
  have fk: "fold (keepBest E) (i # is) q = fold (keepBest E) is (keepBest E i q)" for E q
    by simp
  show ?case
    unfolding fk by (rule eq)
qed

lemma store_update_cong:
  "(\<And>x. f x = g x) \<Longrightarrow> s\<lparr>itemStore := f\<rparr> = s\<lparr>itemStore := g\<rparr>"
  by (simp add: fun_eq_iff)

lemma getFocusableItem_in_range:
  "i < length (focusableItems s) \<Longrightarrow> getFocusableItem s (int i) = Ref (focusableItems s ! i)"
  by (simp add: getFocusableItem_def)

lemma updateNodeEdges_eq:
  assumes "i < length (focusableItems s)"
  shows "updateNodeEdges s i = Done (settleSet {focusableItems s ! i} s)"
proof -
  define c where "c = focusableItems s ! i"
  have upd: "s\<lparr>itemStore := (itemStore s)(c := settleItem s c)\<rparr> = settleSet {c} s"
    unfolding settleSet_def by (rule store_update_cong) simp
  have ov: "snd (fold (keepBest D) is (None, f)) = override (snd (fold (keepBest D) is (None, None))) f"
    for D "is" f
    by (subst fold_keepBest_override) simp
  have "fst (fold (nodeEdgesStep c (getItemMetrics (getElement (itemStore s c))))
               [0..<length (focusableItems s)] (s, noMinima))
        = s\<lparr>itemStore := (itemStore s)(c := settleItem s c)\<rparr>"
    by (subst fold_nodeEdgesStep [OF refl])
       (simp add: noMinima_def settleItem_def chosen_def ov [symmetric])
  then show ?thesis
    using assms
    by (simp add: updateNodeEdges_def getFocusableItem_in_range getFocusableItemCount_def
        Let_def upd c_def [symmetric])
qed

lemma settleItem_element [simp]: "getElement (settleItem s c) = getElement (itemStore s c)"
  by (simp add: settleItem_def)

lemma settleSet_simps [simp]:
  "focusableItems (settleSet X s) = focusableItems s"
  "debugMode (settleSet X s) = debugMode s"
  "getElement (itemStore (settleSet X s) x) = getElement (itemStore s x)"
  by (simp_all add: settleSet_def)

lemma itemStore_settleSet:
  "itemStore (settleSet X s) x = (if x \<in> X then settleItem s x else itemStore s x)"
  by (simp add: settleSet_def)

lemma candidateDistance_settleSet [simp]:
  "candidateDistance (settleSet X s) c d i = candidateDistance s c d i"
  by (rule candidateDistance_cong) simp_all

lemma chosen_settleSet [simp]: "chosen (settleSet X s) c d = chosen s c d"
proof -
  have "candidateDistance (settleSet X s) c d = candidateDistance s c d"
    by (rule ext) simp
  then show ?thesis by (simp add: chosen_def)
qed

lemma override_idem [simp]: "override n (override n old) = override n old"
  by (simp add: override_def split: option.splits)

lemma settleItem_settleSet [simp]: "settleItem (settleSet X s) c = settleItem s c"
  by (simp add: settleItem_def [of "settleSet X s"] itemStore_settleSet)
     (simp add: settleItem_def)

lemma settleSet_store_update:
  "(settleSet Y s)\<lparr>itemStore := f\<rparr> = s\<lparr>itemStore := f\<rparr>"
  by (simp add: settleSet_def)

lemma settleSet_settleSet: "settleSet X (settleSet Y s) = settleSet (X \<union> Y) s"
proof -
  have "settleSet X (settleSet Y s)
      = s\<lparr>itemStore := (\<lambda>x. if x \<in> X then settleItem (settleSet Y s) x
                              else itemStore (settleSet Y s) x)\<rparr>"
    by (simp only: settleSet_def [of X] settleSet_store_update)
  also have "\<dots> = s\<lparr>itemStore := (\<lambda>x. if x \<in> X \<union> Y then settleItem s x else itemStore s x)\<rparr>"
    by (rule store_update_cong) (simp add: itemStore_settleSet)
  finally show ?thesis by (simp add: settleSet_def)
qed

lemma settleSet_empty [simp]: "settleSet {} s = s"
  by (simp add: settleSet_def)

section \<open>The index the loop chooses\<close>

lemma bestSoFar_step:
  assumes "bestSoFar D n p"
  shows "bestSoFar D (Suc n) (keepBest D n p)"
proof (cases "D n")
  case None
  then have "keepBest D n p = p" by (simp add: keepBest_def improves_def)
  with assms None show ?thesis
    by (auto simp: bestSoFar_def less_Suc_eq split: option.splits)
next
  case (Some e)
  show ?thesis
  proof (cases "fst p")
    case None
    with Some have "keepBest D n p = (Some e, Some n)"
      by (simp add: keepBest_def improves_def)
    with assms None Some show ?thesis
      by (auto simp: bestSoFar_def less_Suc_eq)
  next
    case (Some d)
    note d = this
    show ?thesis
    proof (cases "d > e")
      case True
      with \<open>D n = Some e\<close> d have "keepBest D n p = (Some e, Some n)"
        by (simp add: keepBest_def improves_def)
      with assms d \<open>D n = Some e\<close> True show ?thesis
        by (fastforce simp: bestSoFar_def less_Suc_eq)
    next
      case False
      with \<open>D n = Some e\<close> d have "keepBest D n p = p"
        by (simp add: keepBest_def improves_def)
      with assms d \<open>D n = Some e\<close> False show ?thesis
        by (fastforce simp: bestSoFar_def less_Suc_eq)
    qed
  qed
qed

lemma bestSoFar_fold: "bestSoFar D n (fold (keepBest D) [0..<n] (None, None))"
proof (induction n)
  case 0
  show ?case by (simp add: bestSoFar_def)
next
  case (Suc n)
  then show ?case by (simp add: bestSoFar_step)
qed

lemma chosen_Some:
  assumes "chosen s c d = Some j"
  shows "j < length (focusableItems s) \<and> (\<exists>e. candidateDistance s c d j = Some e
     \<and> (\<forall>k<length (focusableItems s). \<forall>e'. candidateDistance s c d k = Some e' \<longrightarrow>
           e \<le> e' \<and> (k < j \<longrightarrow> e < e')))"
  using bestSoFar_fold [of "candidateDistance s c d" "length (focusableItems s)"] assms
  by (auto simp: bestSoFar_def chosen_def split: option.splits)

lemma chosen_None:
  assumes "chosen s c d = None"
  shows "\<forall>k<length (focusableItems s). candidateDistance s c d k = None"
  using bestSoFar_fold [of "candidateDistance s c d" "length (focusableItems s)"] assms
  by (auto simp: bestSoFar_def chosen_def split: option.splits)

lemma neighbourIndex_settleItem:
  "neighbourIndex d (settleItem s c) = override (chosen s c d) (neighbourIndex d (itemStore s c))"
  by (cases d) (simp_all add: neighbourIndex_def settleItem_def)

section \<open>The whole build\<close>

lemma neighbourDrawable_settleSet [simp]:
  "neighbourDrawable (settleSet X s) idx = neighbourDrawable s idx"
  by (simp add: neighbourDrawable_def getFocusableItem_def split: option.splits)

lemma drawableItem_settleSet [simp]:
  "drawableItem (settleSet X s) item = drawableItem s item"
  by (simp add: drawableItem_def)

lemma focusGraphLoop_eq:
  assumes "\<forall>i \<in> set is. i < length (focusableItems s)"
  shows "focusGraphLoop is (settleSet Y s) =
    (if throwsIn is s then Thrown TypeError (settleSet (Y \<union> visited is s) s)
     else Done (settleSet (Y \<union> visited is s) s))"
  using assms
proof (induction "is" arbitrary: Y)
  case Nil
  show ?case by simp
next
  case (Cons i "is")
  define c where "c = focusableItems s ! i"
  have i: "i < length (focusableItems s)" and rest: "\<forall>k \<in> set is. k < length (focusableItems s)"
    using Cons.prems by simp_all
  show ?case
  proof (cases "isFocusable (getElement (itemStore s c))")
    case False
    then show ?thesis
      using Cons.IH [OF rest, of Y] by (simp add: c_def Let_def)
  next
    case True
    have une: "updateNodeEdges (settleSet Y s) i = Done (settleSet (insert c Y) s)"
      using updateNodeEdges_eq [of i "settleSet Y s"] i
      by (simp add: settleSet_settleSet c_def)
    have pr: "printDebugLinesForNode (settleSet (insert c Y) s) i c =
        (if drawableItem s (settleItem s c) then Done (settleSet (insert c Y) s)
         else Thrown TypeError (settleSet (insert c Y) s))"
      by (simp add: printDebugLinesForNode_def drawableItem_def itemStore_settleSet)
    show ?thesis
    proof (cases "nodeThrows s i")
      case True
      with \<open>isFocusable (getElement (itemStore s c))\<close> show ?thesis
        by (simp add: une pr c_def [symmetric] nodeThrows_def Let_def)
    next
      case False
      with \<open>isFocusable (getElement (itemStore s c))\<close> show ?thesis
        using Cons.IH [OF rest, of "insert c Y"]
        by (auto simp: une pr c_def [symmetric] nodeThrows_def Let_def)
    qed
  qed
qed

lemma updateFocusGraph_eq:
  "updateFocusGraph s =
    (if throwsIn [0..<length (focusableItems s)] s
     then Thrown TypeError (settleSet (visited [0..<length (focusableItems s)] s) s)
     else Done (settleSet (visited [0..<length (focusableItems s)] s) s))"
  using focusGraphLoop_eq [of "[0..<length (focusableItems s)]" s "{}"]
  by (simp add: updateFocusGraph_def getFocusableItemCount_def)

lemma throwsIn_settleSet [simp]: "throwsIn is (settleSet X s) = throwsIn is s"
  by (induction "is") (simp_all add: nodeThrows_def)

lemma visited_settleSet [simp]: "visited is (settleSet X s) = visited is s"
  by (induction "is") (simp_all add: nodeThrows_def)

lemma not_throwsIn_visited:
  "\<not> throwsIn is s \<Longrightarrow>
   visited is s = {focusableItems s ! i | i. i \<in> set is \<and> isFocusable (getElement (itemStore s (focusableItems s ! i)))}"
  by (induction "is") (auto split: if_splits)

lemma not_debug_not_throwsIn: "\<not> debugMode s \<Longrightarrow> \<not> throwsIn is s"
  by (induction "is") (simp_all add: nodeThrows_def)

section \<open>What a build leaves in the neighbour fields\<close>

lemma build_state:
  "stateOf (updateFocusGraph s) = settleSet (visited [0..<length (focusableItems s)] s) s"
  by (simp add: updateFocusGraph_eq)

lemma build_item_cases:
  "itemStore (stateOf (updateFocusGraph s)) x = itemStore s x
   \<or> itemStore (stateOf (updateFocusGraph s)) x = settleItem s x"
  by (simp add: build_state itemStore_settleSet)

lemma build_returns:
  assumes "\<not> debugMode s"
  shows "updateFocusGraph s = Done (stateOf (updateFocusGraph s))"
  using not_debug_not_throwsIn [OF assms] by (simp add: updateFocusGraph_eq)

lemma build_settles:
  assumes "updateFocusGraph s = Done s'"
    and "i < length (focusableItems s)"
    and "isFocusable (getElement (itemStore s (focusableItems s ! i)))"
  shows "itemStore s' (focusableItems s ! i) = settleItem s (focusableItems s ! i)"
proof -
  have nt: "\<not> throwsIn [0..<length (focusableItems s)] s"
    using assms(1) by (auto simp: updateFocusGraph_eq split: if_splits)
  have "focusableItems s ! i \<in> visited [0..<length (focusableItems s)] s"
    unfolding not_throwsIn_visited [OF nt] using assms(2,3) by auto
  moreover have "s' = settleSet (visited [0..<length (focusableItems s)] s) s"
    using assms(1) nt by (simp add: updateFocusGraph_eq)
  ultimately show ?thesis by (simp add: itemStore_settleSet)
qed

lemma build_neighbour_cases:
  "neighbourIndex d (itemStore (stateOf (updateFocusGraph s)) x) = neighbourIndex d (itemStore s x)
   \<or> neighbourIndex d (itemStore (stateOf (updateFocusGraph s)) x) = chosen s x d"
  using build_item_cases [of s x]
  by (auto simp: neighbourIndex_settleItem override_def split: option.splits)

lemma build_keeps_without_candidate:
  assumes "\<forall>k<length (focusableItems s). candidateDistance s x d k = None"
  shows "neighbourIndex d (itemStore (stateOf (updateFocusGraph s)) x)
     = neighbourIndex d (itemStore s x)"
proof -
  have "chosen s x d = None"
  proof (cases "chosen s x d")
    case (Some j)
    from chosen_Some [OF this] assms show ?thesis by auto
  qed simp
  then show ?thesis
    using build_item_cases [of s x]
    by (auto simp: neighbourIndex_settleItem override_def)
qed

section \<open>The build on the layout\<close>

lemmas example_defs =
  exampleController_def exampleStore_def freshItem_def plainElement_def

lemma floor_sqrt_values:
  "\<lfloor>sqrt (22500::real)\<rfloor> = 150"
  "\<lfloor>sqrt (112500::real)\<rfloor> = 335"
  "\<lfloor>sqrt (45000::real)\<rfloor> = 212"
  by (rule floor_sqrt_eqI; simp)+

lemmas distance_defs =
  candidateDistance_def pairDistance_def getRightDistance_def getLeftDistance_def
  getTopDistance_def getBottomDistance_def getItemMetrics_def isFocusable_def js_gt_def
  angleGate_iff min3_def calcDistance_def Let_def

lemma example_right_of_A:
  "candidateDistance exampleController 0 RightSide 0 = None"
  "candidateDistance exampleController 0 RightSide 1 = Some 150"
  "candidateDistance exampleController 0 RightSide 2 = Some 335"
  by (simp_all add: distance_defs example_defs floor_sqrt_values)

lemma example_left_of_B:
  "candidateDistance exampleController 1 LeftSide 0 = Some 150"
  "candidateDistance exampleController 1 LeftSide 1 = None"
  "candidateDistance exampleController 1 LeftSide 2 = None"
  by (simp_all add: distance_defs example_defs floor_sqrt_values)

lemma upt_3: "[0..<3] = [0, 1, 2]"
  by (simp add: upt_rec)

lemma example_length: "length (focusableItems exampleController) = 3"
  by (simp add: exampleController_def)

lemma example_chosen:
  "chosen exampleController 0 RightSide = Some 1"
  "chosen exampleController 1 LeftSide = Some 0"
  by (simp_all add: chosen_def example_length upt_3 example_right_of_A [simplified]
      example_left_of_B [simplified] keepBest_def improves_def)

lemma example_items:
  "focusableItems exampleController ! 0 = 0"
  "focusableItems exampleController ! Suc 0 = Suc 0"
  "focusableItems exampleController ! 2 = 2"
  by (simp_all add: exampleController_def)

lemma example_focusable:
  "isFocusable (getElement (itemStore exampleController 0))"
  "isFocusable (getElement (itemStore exampleController (Suc 0)))"
  "isFocusable (getElement (itemStore exampleController 2))"
  by (simp_all add: example_defs isFocusable_def js_gt_def)

lemma example_returns:
  "updateFocusGraph exampleController = Done (stateOf (updateFocusGraph exampleController))"
  by (rule build_returns) (simp add: exampleController_def)

lemma example_built:
  "rightFocusItemIndex (itemStore (stateOf (updateFocusGraph exampleController)) 0) = Some 1"
  "leftFocusItemIndex (itemStore (stateOf (updateFocusGraph exampleController)) (Suc 0)) = Some 0"
  using build_settles [OF example_returns, of 0] build_settles [OF example_returns, of "Suc 0"]
    example_chosen
  by (simp_all add: example_items example_focusable example_length settleItem_def override_def)

lemma example_built_frame:
  "currentlyFocusedItem (stateOf (updateFocusGraph exampleController)) = Ref 0"
  "focusableItems (stateOf (updateFocusGraph exampleController)) = [0, 1, 2]"
  by (simp_all add: build_state settleSet_def exampleController_def)

lemma all_less_3: "(\<forall>k<(3::nat). P k) \<longleftrightarrow> P 0 \<and> P (Suc 0) \<and> P 2"
  by (auto simp: numeral_3_eq_3 numeral_2_eq_2 less_Suc_eq)

lemma stale_list: "focusableItems staleController = [0, 1, 2]"
  by (simp add: staleController_def hideItem_def example_built_frame)

lemma stale_length: "length (focusableItems staleController) = 3"
  by (simp add: stale_list)

lemma stale_elements:
  "getElement (itemStore staleController 0) = (plainElement 0 0 100 100)\<lparr>styleDisplay := ''none''\<rparr>"
  "getElement (itemStore staleController (Suc 0)) = plainElement 150 0 100 100"
  "getElement (itemStore staleController 2) = plainElement 150 200 100 100"
  by (simp_all add: staleController_def hideItem_def build_state)
     (simp_all add: exampleController_def exampleStore_def freshItem_def)

lemma stale_left_index: "leftFocusItemIndex (itemStore staleController (Suc 0)) = Some 0"
  by (simp add: staleController_def hideItem_def example_built)

lemma stale_left_of_B:
  "candidateDistance staleController (Suc 0) LeftSide 0 = None"
  "candidateDistance staleController (Suc 0) LeftSide (Suc 0) = None"
  "candidateDistance staleController (Suc 0) LeftSide 2 = None"
  by (simp_all add: candidateDistance_def stale_list stale_elements Let_def)
     (simp_all add: isFocusable_def js_gt_def plainElement_def pairDistance_def
       getLeftDistance_def getItemMetrics_def Let_def)

lemma tie_right_of_A:
  "candidateDistance tieController 0 RightSide 0 = None"
  "candidateDistance tieController 0 RightSide 1 = Some 180"
  "candidateDistance tieController 0 RightSide 2 = Some 180"
proof -
  have "\<lfloor>sqrt (32500::real)\<rfloor> = 180"
    by (rule floor_sqrt_eqI) simp_all
  then show
    "candidateDistance tieController 0 RightSide 0 = None"
    "candidateDistance tieController 0 RightSide 1 = Some 180"
    "candidateDistance tieController 0 RightSide 2 = Some 180"
    by (simp_all add: distance_defs tieController_def tieStore_def freshItem_def plainElement_def)
qed

lemma tie_returns: "updateFocusGraph tieController = Done (stateOf (updateFocusGraph tieController))"
  by (rule build_returns) (simp add: tieController_def)

lemma tie_frame:
  "length (focusableItems tieController) = 3"
  "focusableItems tieController ! 0 = 0"
  "isFocusable (getElement (itemStore tieController 0))"
  by (simp_all add: tieController_def tieStore_def freshItem_def plainElement_def
      isFocusable_def js_gt_def)












section \<open>The claims about the build\<close>

text \<open>
  C8. Running \<^verbatim>\<open>updateFocusGraph\<close> on the state a first run has left gives the
  outcome of the first run again: the same state, so the same four neighbour indices on
  every item, and the same return or throw. Nothing but the neighbour fields changes in
  a run, so geometry and eligibility are those of the first run.
\<close>

theorem updateFocusGraph_idempotent:
  "updateFocusGraph (stateOf (updateFocusGraph s)) = updateFocusGraph s"
proof -
  define V where "V = visited [0..<length (focusableItems s)] s"
  have "updateFocusGraph (settleSet V s) = updateFocusGraph s"
    by (simp add: updateFocusGraph_eq [of "settleSet V s"] updateFocusGraph_eq [of s]
        settleSet_settleSet V_def [symmetric])
  moreover have "stateOf (updateFocusGraph s) = settleSet V s"
    by (simp add: updateFocusGraph_eq [of s] V_def)
  ultimately show ?thesis by simp
qed

theorem updateFocusGraph_idempotent_witness:
  "updateFocusGraph (stateOf (updateFocusGraph exampleController))
     = Done (stateOf (updateFocusGraph exampleController))"
  using updateFocusGraph_idempotent [of exampleController] example_returns
  by simp

text \<open>
  What the build itself does for an item \<open>B\<close> at index \<open>b\<close> whose left edge is
  strictly before the right edge of an item \<open>A\<close>: \<^verbatim>\<open>getRightDistance\<close> from \<open>A\<close> to
  \<open>B\<close> is null, and the build does not write \<open>b\<close> into \<open>A\<close>'s right neighbour field.
\<close>

lemma overlapping_never_written:
  assumes "b < length (focusableItems s)"
    and "mLeft (getItemMetrics (getElement (itemStore s (focusableItems s ! b))))
          < mRight (getItemMetrics (getElement (itemStore s A)))"
    and "rightFocusItemIndex (itemStore s A) \<noteq> Some b"
  shows "getRightDistance (getItemMetrics (getElement (itemStore s A)))
           (getItemMetrics (getElement (itemStore s (focusableItems s ! b)))) = None
       \<and> rightFocusItemIndex (itemStore (stateOf (updateFocusGraph s)) A) \<noteq> Some b"
proof
  show none: "getRightDistance (getItemMetrics (getElement (itemStore s A)))
           (getItemMetrics (getElement (itemStore s (focusableItems s ! b)))) = None"
    using assms(2) edge_tests(1) by fastforce
  show "rightFocusItemIndex (itemStore (stateOf (updateFocusGraph s)) A) \<noteq> Some b"
  proof
    assume after: "rightFocusItemIndex (itemStore (stateOf (updateFocusGraph s)) A) = Some b"
    with assms(3) build_neighbour_cases [of RightSide s A]
    have "chosen s A RightSide = Some b"
      by (auto simp: neighbourIndex_def)
    from chosen_Some [OF this] obtain e where "candidateDistance s A RightSide b = Some e"
      by auto
    with none show False
      by (auto simp: candidateDistance_def pairDistance_def Let_def split: if_splits)
  qed
qed


text \<open>
  C5. When the build returns (it does whenever debug mode is off, lemma
  \<open>build_returns\<close>), then for every focusable item \<open>A\<close> of the list and every side
  for which some index has a distance, \<open>A\<close>'s neighbour field of that side holds an
  index \<open>j\<close> that has a distance \<open>e\<close>, no index has a smaller distance, and every
  index before \<open>j\<close> that has a distance has a strictly larger one: the first index of
  least distance.
\<close>

theorem nearest_candidate_chosen:
  assumes "updateFocusGraph s = Done s'"
    and "a < length (focusableItems s)"
    and "isFocusable (getElement (itemStore s (focusableItems s ! a)))"
    and "k < length (focusableItems s)"
    and "candidateDistance s (focusableItems s ! a) d k \<noteq> None"
  shows "\<exists>j e. neighbourIndex d (itemStore s' (focusableItems s ! a)) = Some j
            \<and> j < length (focusableItems s)
            \<and> candidateDistance s (focusableItems s ! a) d j = Some e
            \<and> (\<forall>i<length (focusableItems s). \<forall>e'.
                  candidateDistance s (focusableItems s ! a) d i = Some e' \<longrightarrow>
                  e \<le> e' \<and> (i < j \<longrightarrow> e < e'))"
proof -
  define A where "A = focusableItems s ! a"
  have "chosen s A d \<noteq> None"
  proof
    assume "chosen s A d = None"
    from chosen_None [OF this] assms(4,5) show False
      by (simp add: A_def)
  qed
  then obtain j where j: "chosen s A d = Some j" by auto
  have "neighbourIndex d (itemStore s' A) = Some j"
    using build_settles [OF assms(1-3)] j
    by (simp add: A_def neighbourIndex_settleItem override_def)
  with chosen_Some [OF j] show ?thesis
    unfolding A_def by blast
qed

theorem nearest_candidate_chosen_witness:
  "neighbourIndex RightSide (itemStore (stateOf (updateFocusGraph exampleController)) 0) = Some 1
   \<and> candidateDistance tieController 0 RightSide 1 = Some 180
   \<and> candidateDistance tieController 0 RightSide 2 = Some 180
   \<and> neighbourIndex RightSide (itemStore (stateOf (updateFocusGraph tieController)) 0) = Some 1"
proof -
  have three: "j < 3 \<Longrightarrow> j = 0 \<or> j = 1 \<or> j = 2" for j :: nat
    by auto
  have one: "(1::nat) < 3"
    by simp
  have first: "neighbourIndex RightSide
      (itemStore (stateOf (updateFocusGraph exampleController)) 0) = Some 1"
  proof -
    from nearest_candidate_chosen [OF example_returns, of 0 1 RightSide]
    obtain j e where j: "neighbourIndex RightSide
          (itemStore (stateOf (updateFocusGraph exampleController)) 0) = Some j"
      and lt: "j < 3"
      and d: "candidateDistance exampleController 0 RightSide j = Some e"
      and least: "\<forall>i<3. \<forall>e'. candidateDistance exampleController 0 RightSide i = Some e' \<longrightarrow>
                    e \<le> e' \<and> (i < j \<longrightarrow> e < e')"
      by (auto simp: example_items example_focusable example_length
          example_right_of_A [simplified])
    from one least example_right_of_A(2) have e: "e \<le> 150"
      by blast
    from three [OF lt] have "j = 1"
      using d e example_right_of_A by auto
    with j show ?thesis by simp
  qed
  have second: "neighbourIndex RightSide
      (itemStore (stateOf (updateFocusGraph tieController)) 0) = Some 1"
  proof -
    from nearest_candidate_chosen [OF tie_returns, of 0 1 RightSide]
    obtain j e where j: "neighbourIndex RightSide
          (itemStore (stateOf (updateFocusGraph tieController)) 0) = Some j"
      and lt: "j < 3"
      and d: "candidateDistance tieController 0 RightSide j = Some e"
      and least: "\<forall>i<3. \<forall>e'. candidateDistance tieController 0 RightSide i = Some e' \<longrightarrow>
                    e \<le> e' \<and> (i < j \<longrightarrow> e < e')"
      by (auto simp: tie_frame tie_right_of_A [simplified])
    from one least tie_right_of_A(2) have e: "e \<le> 180 \<and> (1 < j \<longrightarrow> e < 180)"
      by blast
    from three [OF lt] have "j = 1"
      using d e tie_right_of_A by auto
    with j show ?thesis by simp
  qed
  from first second show ?thesis
    by (simp add: tie_right_of_A [simplified])
qed

text \<open>
  C7. The code breaks the claim. After a first build \<open>B\<close>'s left neighbour is \<open>A\<close>
  (index 0). The page then hides \<open>A\<close>. In the next build \<open>B\<close> is focusable and the
  distance to the left is null for every index, yet \<open>B\<close>'s left neighbour is still
  index 0, not null: \<^verbatim>\<open>updateNodeEdges\<close> writes a field only when it finds a candidate
  and never clears one.
\<close>

theorem stale_neighbour_survives:
  "isFocusable (getElement (itemStore staleController 1))
   \<and> \<not> isFocusable (getElement (itemStore staleController 0))
   \<and> isFocusable (getElement (itemStore staleController 2))
   \<and> getLeftDistance (getItemMetrics (getElement (itemStore staleController 1)))
       (getItemMetrics (getElement (itemStore staleController 2))) = None
   \<and> updateFocusGraph staleController = Done (stateOf (updateFocusGraph staleController))
   \<and> leftFocusItemIndex (itemStore (stateOf (updateFocusGraph staleController)) 1) = Some 0"
proof -
  have "\<forall>k<length (focusableItems staleController).
          candidateDistance staleController (Suc 0) LeftSide k = None"
    unfolding stale_length all_less_3 by (simp add: stale_left_of_B)
  from build_keeps_without_candidate [OF this]
  have "leftFocusItemIndex (itemStore (stateOf (updateFocusGraph staleController)) (Suc 0)) = Some 0"
    by (simp add: neighbourIndex_def stale_left_index)
  moreover have "updateFocusGraph staleController
      = Done (stateOf (updateFocusGraph staleController))"
    by (rule build_returns)
       (simp add: staleController_def hideItem_def build_state settleSet_def
         exampleController_def)
  ultimately show ?thesis
    by (simp add: stale_elements)
       (simp add: plainElement_def isFocusable_def js_gt_def getLeftDistance_def
         getItemMetrics_def)
qed

section \<open>Moving the focus\<close>

text \<open>
  C1, as the claim states it, fails. On the layout, with \<open>A\<close> focused and no build run
  yet, a move right leaves the focus on \<open>A\<close>; had the graph been rebuilt first, as in
  \<open>moveFocus_spec\<close>, the focus would have moved to \<open>B\<close>.
\<close>

theorem moveFocus_does_not_rebuild:
  "currentlyFocusedItem (stateOf (moveFocus exampleController moveRight)) = Ref 0
   \<and> currentlyFocusedItem (stateOf (moveFocus_spec exampleController moveRight)) = Ref 1"
proof
  show "currentlyFocusedItem (stateOf (moveFocus exampleController moveRight)) = Ref 0"
    by (simp add: moveFocus_def moveRight_def example_defs)
  have cf: "currentlyFocusedItem exampleController = Ref 0"
    by (simp add: exampleController_def)
  have "moveFocus_spec exampleController moveRight
      = (case updateFocusGraph exampleController of
           Thrown e s' \<Rightarrow> Thrown e s'
         | Done s' \<Rightarrow> moveFocus s' moveRight)"
    by (simp add: moveFocus_spec_def cf)
  also have "\<dots> = moveFocus (stateOf (updateFocusGraph exampleController)) moveRight"
    by (subst example_returns) simp
  finally show "currentlyFocusedItem (stateOf (moveFocus_spec exampleController moveRight)) = Ref 1"
    by (simp add: moveFocus_def moveRight_def example_built example_built_frame
        setCurrentFocusItem_def getFocusableItem_def)
qed

text \<open>
  C1, amended. \<^verbatim>\<open>moveFocus\<close> with an item focused rebuilds nothing: it leaves the
  neighbour fields of every item as they are, and looks up the index stored on the
  focused item for the side the direction selects; with no side or no index it returns
  without change, else it calls \<^verbatim>\<open>setCurrentFocusItem\<close> with that index. The target
  is whatever index the field holds at the time of the move.
\<close>

theorem moveFocus_uses_stored_neighbour:
  assumes "currentlyFocusedItem s = Ref item"
  shows "itemStore (stateOf (moveFocus s direction)) = itemStore s
       \<and> moveFocus s direction =
           (case sideOf direction of
              None \<Rightarrow> Done s
            | Some d \<Rightarrow>
                (case neighbourIndex d (itemStore s item) of
                   None \<Rightarrow> Done s
                 | Some i \<Rightarrow> setCurrentFocusItem s (int i)))"
  using assms
  by (auto simp: moveFocus_def sideOf_def neighbourIndex_def setCurrentFocusItem_def Let_def
      split: option.splits itemRef.splits)

theorem moveFocus_uses_stored_neighbour_witness:
  "itemStore (stateOf (moveFocus (stateOf (updateFocusGraph exampleController)) moveRight))
     = itemStore (stateOf (updateFocusGraph exampleController))
   \<and> currentlyFocusedItem
       (stateOf (moveFocus (stateOf (updateFocusGraph exampleController)) moveRight)) = Ref 1"
  using moveFocus_uses_stored_neighbour
    [of "stateOf (updateFocusGraph exampleController)" 0 moveRight]
  by (simp add: example_built_frame sideOf_def moveRight_def neighbourIndex_def example_built
      setCurrentFocusItem_def getFocusableItem_def)

end
